theory Spec2Isabelle
  imports Complex_Main
begin

section \<open>Values exchanged with the rendering and physics collaborators\<close>

text \<open>
  A JavaScript number is modelled as a real number: the claims studied here are about
  which expression ends up in which field, never about rounding. \<open>Math.PI\<close> is \<open>pi\<close>.
  A property read or written on \<open>undefined\<close> raises a \<open>TypeError\<close>; that is the only
  exception the two classes can raise by themselves.
\<close>

type_synonym number = real

datatype JsError = TypeError

text \<open>\<open>Vector2d\<close> of SimTypes (a plain object with fields x and y).\<close>

datatype Vector2d = Vector2d (v2d_x: number) (v2d_y: number)

text \<open>\<open>THREE.Vector2\<close> and planck's \<open>Vec2\<close>: two different classes with two coordinates.\<close>

datatype Vector2 = Vector2 (tv2_x: number) (tv2_y: number)

datatype Vec2 = Vec2 (vec2_x: number) (vec2_y: number)

record Vector3 =
  vec3_x :: number
  vec3_y :: number
  vec3_z :: number

record Euler =
  euler_x :: number
  euler_y :: number
  euler_z :: number

subsection \<open>Meshes\<close>

datatype Side = FrontSide | BackSide | DoubleSide

text \<open>
  \<open>THREE.MeshBasicMaterialParameters\<close>, restricted to the four fields the Zone writes.
  A field that was never assigned is \<open>None\<close>. The material built from the parameters
  holds the same four values, so one record serves for both.
\<close>

record MeshBasicMaterialParameters =
  side :: Side
  transparent :: bool
  color :: "number option"
  matOpacity :: "number option"

text \<open>\<open>new THREE.MeshStandardMaterial({ color })\<close>: the one parameter the robot passes.\<close>

record MeshStandardMaterialParameters =
  standardColor :: number

text \<open>
  A shape holds the arguments of the call that built it:
  \<open>new THREE.Shape().ellipse(aX, aY, xRadius, yRadius, aStartAngle, aEndAngle, aClockwise, aRotation)\<close>
  or \<open>new THREE.Shape(points)\<close>.
\<close>

datatype Shape =
    Shape_ellipse number number number number number number bool number
  | Shape_points "Vector2 list"

text \<open>
  \<open>new THREE.Shape(points)\<close> starts the outline at \<open>points[0]\<close>, whose \<open>x\<close> it
  reads: with an empty list that is a property read on \<open>undefined\<close>.
\<close>

definition new_Shape :: "Vector2 list \<Rightarrow> JsError + Shape" where
  "new_Shape pts = (if pts = [] then Inl TypeError else Inr (Shape_points pts))"

datatype Geometry =
    PlaneGeometry number number
  | ShapeBufferGeometry Shape
  | BoxGeometry number number number

text \<open>A mesh, with the class of its material as the type parameter.\<close>

record 'm Mesh =
  geometry :: Geometry
  material :: 'm
  position :: Vector3
  rotation :: Euler

text \<open>\<open>new THREE.Mesh(geometry, material)\<close>: placed at the origin, not rotated.\<close>

definition new_Mesh :: "Geometry \<Rightarrow> 'm \<Rightarrow> 'm Mesh" where
  "new_Mesh geom mat =
     \<lparr>geometry = geom, material = mat,
      position = \<lparr>vec3_x = 0, vec3_y = 0, vec3_z = 0\<rparr>,
      rotation = \<lparr>euler_x = 0, euler_y = 0, euler_z = 0\<rparr>\<rparr>"

subsection \<open>Body and fixture specifications\<close>

datatype BodyType = static | dynamic | kinematic

text \<open>planck's \<open>BodyDef\<close>, restricted to the fields the two classes write.\<close>

record BodyDef =
  type :: BodyType
  bodyPosition :: Vec2
  angle :: number
  linearDamping :: "number option"
  bullet :: "bool option"
  angularDamping :: "number option"

datatype FixtureShape =
    Box number number
  | Polygon "Vec2 list"

text \<open>\<open>IZoneFixtureUserData\<close>: \<open>{selfGuid, type, zone: {id, color}}\<close>.\<close>

record ZoneUserData =
  zoneUserId :: string
  zoneUserColor :: "number option"

record IZoneFixtureUserData =
  selfGuid :: string
  userDataType :: string
  zone :: ZoneUserData

record FixtureDef =
  shape :: "FixtureShape option"
  density :: "number option"
  isSensor :: bool
  friction :: "number option"
  restitution :: "number option"
  userData :: "IZoneFixtureUserData option"

subsection \<open>Physics bodies\<close>

text \<open>
  A body belongs to the physics world; a simulated object only holds a reference to it.
  The store maps every reference to the state of the body it denotes, of which the two
  classes read the world centre and the angle.
\<close>

type_synonym BodyRef = nat

record Body =
  worldCenter :: Vec2
  bodyAngle :: number

text \<open>
  A wheel is a simulated object that the drivetrain and the robot's child list share,
  so it is held by reference too. Of a simulated object the robot reads the \<open>body\<close>
  accessor only.
\<close>

type_synonym ObjRef = nat

record SimObject =
  body :: "BodyRef option"

record Store =
  bodies :: "BodyRef \<Rightarrow> Body"
  objects :: "ObjRef \<Rightarrow> SimObject"

section \<open>Zone\<close>

record RectangleZoneSpec =
  xLength :: number
  zLength :: number

record EllipseZoneSpec =
  xRadius :: number
  zRadius :: number

record PolygonZoneSpec =
  points :: "Vector2d list"

text \<open>\<open>IZoneSpec\<close>: an optional field that is absent is \<open>None\<close>.\<close>

record IZoneSpec =
  zoneId :: string
  baseColor :: "number option"
  opacity :: "number option"
  initialPosition :: "Vector2d option"
  rectangleZone :: "RectangleZoneSpec option"
  ellipseZone :: "EllipseZoneSpec option"
  polygonZone :: "PolygonZoneSpec option"

text \<open>
  The fields of a Zone. The mesh is assigned by every constructor call that returns;
  the body reference is assigned later by whoever creates the body, and is \<open>None\<close>
  until then.
\<close>

record Zone =
  zone_guid :: string
  zone_mesh :: "MeshBasicMaterialParameters Mesh"
  zone_body :: "BodyRef option"
  zone_bodySpecs :: BodyDef
  zone_fixtureSpecs :: FixtureDef
  zone_zoneId :: string

text \<open>
  The loop of the polygon branch: it walks the indexes of the point list and pushes one
  \<open>THREE.Vector2\<close> and one \<open>Vec2\<close> per point.
\<close>

function polygonPoints ::
  "Vector2d list \<Rightarrow> nat \<Rightarrow> Vector2 list \<Rightarrow> Vec2 list \<Rightarrow> Vector2 list \<times> Vec2 list" where
  "polygonPoints pts i shapePoints fixturePoints =
     (if i < length pts
      then polygonPoints pts (i + 1)
             (shapePoints @ [Vector2 (v2d_x (pts ! i)) (v2d_y (pts ! i))])
             (fixturePoints @ [Vec2 (v2d_x (pts ! i)) (v2d_y (pts ! i))])
      else (shapePoints, fixturePoints))"
  by pat_completeness auto
termination
  by (relation "measure (\<lambda>(pts, i, _, _). length pts - i)") auto

declare polygonPoints.simps [simp del]

text \<open>
  The constructor. Its first argument is the identifier the SimObject base class has
  assigned to the object. The result is the console output and either the exception
  that ended the construction or the new Zone. An exception raised inside a branch
  (\<open>raised\<close>) ends the construction there.
\<close>

definition Zone_constructor :: "string \<Rightarrow> IZoneSpec \<Rightarrow> string list \<times> (JsError + Zone)" where
  "Zone_constructor guid spec =
     (let initPos0 = Vector2d 0 0;
          materialSpecs0 =
            \<lparr>side = DoubleSide, transparent = True, color = None, matOpacity = None\<rparr>;
          materialSpecs1 =
            (if baseColor spec \<noteq> None then materialSpecs0\<lparr>color := baseColor spec\<rparr>
             else materialSpecs0);
          materialSpecs =
            (if opacity spec \<noteq> None then materialSpecs1\<lparr>matOpacity := opacity spec\<rparr>
             else materialSpecs1);
          initPos =
            (case initialPosition spec of
               Some p \<Rightarrow> Vector2d (v2d_x p) (v2d_y p)
             | None \<Rightarrow> initPos0);
          zoneMaterial = materialSpecs;
          (console, raised, fixtureShape, zoneMesh) =
            (case rectangleZone spec of
               Some rect \<Rightarrow>
                 ([], None,
                  Some (Box (xLength rect / 2) (zLength rect / 2)),
                  Some (new_Mesh (PlaneGeometry (xLength rect) (zLength rect)) zoneMaterial))
             | None \<Rightarrow>
                (case ellipseZone spec of
                   Some ell \<Rightarrow>
                     ([], None,
                      Some (Box (xRadius ell) (zRadius ell)),
                      Some (new_Mesh
                        (ShapeBufferGeometry
                           (Shape_ellipse (v2d_x initPos) (v2d_y initPos)
                              (xRadius ell) (zRadius ell) 0 (2 * pi) False 0))
                        zoneMaterial))
                 | None \<Rightarrow>
                    (case polygonZone spec of
                       Some poly \<Rightarrow>
                         (let (shapePoints, fixturePoints) =
                                polygonPoints (points poly) 0 [] []
                          in (case new_Shape shapePoints of
                                Inl e \<Rightarrow> ([], Some e, None, None)
                              | Inr polygonShape \<Rightarrow>
                                  ([], None,
                                   Some (Polygon fixturePoints),
                                   Some (new_Mesh (ShapeBufferGeometry polygonShape)
                                           zoneMaterial))))
                     | None \<Rightarrow>
                         ([''Some type of zone must be specified''], None, None, None))))
      in case raised of
           Some e \<Rightarrow> (console, Inl e)
         | None \<Rightarrow>
        (case zoneMesh of
           None \<Rightarrow> (console, Inl TypeError)
         | Some m \<Rightarrow>
             (console,
              Inr \<lparr>zone_guid = guid,
                   zone_mesh =
                     m\<lparr>position :=
                         (position m)\<lparr>vec3_y := 0,
                                      vec3_x := v2d_x initPos,
                                      vec3_z := v2d_y initPos\<rparr>,
                       rotation := (rotation m)\<lparr>euler_x := pi / 2\<rparr>\<rparr>,
                   zone_body = None,
                   zone_bodySpecs =
                     \<lparr>type = static,
                      bodyPosition = Vec2 (v2d_x initPos) (v2d_y initPos),
                      angle = 0,
                      linearDamping = None, bullet = None, angularDamping = None\<rparr>,
                   zone_fixtureSpecs =
                     \<lparr>shape = fixtureShape,
                      density = None,
                      isSensor = True,
                      friction = None,
                      restitution = None,
                      userData =
                        Some \<lparr>selfGuid = guid, userDataType = ''zone'',
                              zone = \<lparr>zoneUserId = zoneId spec,
                                      zoneUserColor = baseColor spec\<rparr>\<rparr>\<rparr>,
                   zone_zoneId = zoneId spec\<rparr>)))"

definition makeZone :: "string \<Rightarrow> IZoneSpec \<Rightarrow> string list \<times> (JsError + Zone)" where
  "makeZone guid spec = Zone_constructor guid spec"

definition Zone_getBodySpecs :: "Zone \<Rightarrow> BodyDef" where
  "Zone_getBodySpecs z = zone_bodySpecs z"

definition Zone_getFixtureDef :: "Zone \<Rightarrow> FixtureDef" where
  "Zone_getFixtureDef z = zone_fixtureSpecs z"

definition Zone_getZoneId :: "Zone \<Rightarrow> string" where
  "Zone_getZoneId z = zone_zoneId z"

text \<open>
  A method returns the exception it raised, if any, and the object as the call left it.
  \<open>update\<close> reads the body before it writes the mesh, so a Zone without a body is left
  untouched.
\<close>

definition Zone_update :: "Store \<Rightarrow> number \<Rightarrow> Zone \<Rightarrow> JsError option \<times> Zone" where
  "Zone_update st ms z =
     (case zone_body z of
        None \<Rightarrow> (Some TypeError, z)
      | Some b \<Rightarrow>
          (let bodyCenter = worldCenter (bodies st b)
           in (None,
               z\<lparr>zone_mesh :=
                   (zone_mesh z)\<lparr>position :=
                     (position (zone_mesh z))\<lparr>vec3_x := vec2_x bodyCenter,
                                               vec3_z := vec2_y bodyCenter\<rparr>\<rparr>\<rparr>)))"

definition Zone_setColor :: "number \<Rightarrow> Zone \<Rightarrow> Zone" where
  "Zone_setColor c z =
     z\<lparr>zone_mesh :=
         (zone_mesh z)\<lparr>material := (material (zone_mesh z))\<lparr>color := Some c\<rparr>\<rparr>\<rparr>"

definition Zone_setOpacity :: "number \<Rightarrow> Zone \<Rightarrow> Zone" where
  "Zone_setOpacity v z =
     z\<lparr>zone_mesh :=
         (zone_mesh z)\<lparr>material := (material (zone_mesh z))\<lparr>matOpacity := Some v\<rparr>\<rparr>\<rparr>"

text \<open>A sequence of calls of the two mutators, applied from left to right.\<close>

datatype ZoneMutation = SetColor number | SetOpacity number

fun Zone_mutate :: "ZoneMutation \<Rightarrow> Zone \<Rightarrow> Zone" where
  "Zone_mutate (SetColor c) z = Zone_setColor c z"
| "Zone_mutate (SetOpacity v) z = Zone_setOpacity v z"

fun Zone_mutations :: "ZoneMutation list \<Rightarrow> Zone \<Rightarrow> Zone" where
  "Zone_mutations [] z = z"
| "Zone_mutations (m # ms) z = Zone_mutations ms (Zone_mutate m z)"

text \<open>
  How many of the three shape variants a specification carries. The constructor never
  counts them: it takes the first one present.
\<close>

definition shapeVariantCount :: "IZoneSpec \<Rightarrow> nat" where
  "shapeVariantCount spec =
     (if rectangleZone spec \<noteq> None then 1 else 0) +
     (if ellipseZone spec \<noteq> None then 1 else 0) +
     (if polygonZone spec \<noteq> None then 1 else 0)"

text \<open>
  Where a point of a mesh's geometry lies in the world: THREE applies the rotation
  (Euler angles, order XYZ), then the position; the scale is 1.
\<close>

definition localToWorld :: "'m Mesh \<Rightarrow> Vector3 \<Rightarrow> Vector3" where
  "localToWorld m p =
     (let a = cos (euler_x (rotation m)); b = sin (euler_x (rotation m));
          c = cos (euler_y (rotation m)); d = sin (euler_y (rotation m));
          e = cos (euler_z (rotation m)); f = sin (euler_z (rotation m))
      in \<lparr>vec3_x = c * e * vec3_x p - c * f * vec3_y p + d * vec3_z p
                     + vec3_x (position m),
          vec3_y = (a * f + b * e * d) * vec3_x p + (a * e - b * f * d) * vec3_y p
                     - b * c * vec3_z p + vec3_y (position m),
          vec3_z = (b * f - a * e * d) * vec3_x p + (b * e + a * f * d) * vec3_y p
                     + a * c * vec3_z p + vec3_z (position m)\<rparr>)"

text \<open>
  The centre of the drawn outline in the geometry's own coordinates: a plane is centred
  on the origin, an ellipse on the (aX, aY) it was drawn at. A shape made of points has
  no centre of its own.
\<close>

fun geometryCenter :: "Geometry \<Rightarrow> Vector3 option" where
  "geometryCenter (PlaneGeometry w h) = Some \<lparr>vec3_x = 0, vec3_y = 0, vec3_z = 0\<rparr>"
| "geometryCenter (ShapeBufferGeometry (Shape_ellipse aX aY xr yr a0 a1 cw rot)) =
     Some \<lparr>vec3_x = aX, vec3_y = aY, vec3_z = 0\<rparr>"
| "geometryCenter (ShapeBufferGeometry (Shape_points ps)) = None"
| "geometryCenter (BoxGeometry w h d) = Some \<lparr>vec3_x = 0, vec3_y = 0, vec3_z = 0\<rparr>"

definition visualCenter :: "'m Mesh \<Rightarrow> Vector3 option" where
  "visualCenter m = map_option (localToWorld m) (geometryCenter (geometry m))"

text \<open>
  Where a point of the physics plane lies in the world: \<open>update\<close> copies a body's x to
  the mesh's x and its y to the mesh's z, on the ground plane.
\<close>

definition physicsToWorld :: "Vec2 \<Rightarrow> Vector3" where
  "physicsToWorld v = \<lparr>vec3_x = vec2_x v, vec3_y = 0, vec3_z = vec2_y v\<rparr>"

section \<open>SimRobot\<close>

datatype Vector3d = Vector3d (v3d_x: number) (v3d_y: number) (v3d_z: number)

text \<open>
  \<open>IRobotSpec\<close>: \<open>dimensions\<close>, \<open>baseColor\<close> and \<open>initialPosition\<close>; the fields
  that only the drivetrain reads are the extension of the record.
\<close>

record IRobotSpec =
  dimensions :: Vector3d
  robotBaseColor :: "number option"
  robotInitialPosition :: "Vector2d option"

text \<open>
  Of the drivetrain the robot reads \<open>wheelObjects\<close> and \<open>yOffset\<close>; whatever else it
  holds is the extension of the record.
\<close>

record SimRobotDrivetrain =
  wheelObjects :: "ObjRef list"
  yOffset :: number

record 'd SimRobot =
  robot_guid :: string
  robot_children :: "ObjRef list"
  robot_mesh :: "MeshStandardMaterialParameters Mesh"
  robot_body :: "BodyRef option"
  robot_bodySpecs :: BodyDef
  robot_fixtureSpecs :: FixtureDef
  robot_drivetrain :: "'d SimRobotDrivetrain_scheme"

definition ROBOT_DEFAULT_COLOR :: number where
  "ROBOT_DEFAULT_COLOR = 65280"

text \<open>
  Modelled from the spec: \<open>SimObject.addChild\<close> is not among the sources; it
  "appends to the ownership list", which is empty in a new object.
\<close>

definition addChild :: "ObjRef \<Rightarrow> ObjRef list \<Rightarrow> ObjRef list" where
  "addChild child children = children @ [child]"

text \<open>
  \<open>mesh.translateY(distance)\<close> moves the mesh along its own y axis, which is the
  world's y axis for the unrotated mesh the constructor calls it on.
\<close>

definition translateY :: "number \<Rightarrow> 'm Mesh \<Rightarrow> 'm Mesh" where
  "translateY distance m =
     m\<lparr>position := (position m)\<lparr>vec3_y := vec3_y (position m) + distance\<rparr>\<rparr>"

text \<open>
  The constructor. The class \<open>SimRobotDrivetrain\<close> is not among the sources, so its
  constructor is the first argument: it returns the drivetrain or the exception it
  raised. The second argument is the identifier assigned by the SimObject base class.
\<close>

definition SimRobot_constructor ::
  "('s IRobotSpec_scheme \<Rightarrow> JsError + 'd SimRobotDrivetrain_scheme) \<Rightarrow> string \<Rightarrow>
   's IRobotSpec_scheme \<Rightarrow> JsError + 'd SimRobot" where
  "SimRobot_constructor new_SimRobotDrivetrain guid spec =
     (let robotColor =
            (case robotBaseColor spec of
               Some c \<Rightarrow> c
             | None \<Rightarrow> ROBOT_DEFAULT_COLOR);
          bodyGeom =
            BoxGeometry (v3d_x (dimensions spec)) (v3d_y (dimensions spec))
              (v3d_z (dimensions spec));
          bodyMaterial = \<lparr>standardColor = robotColor\<rparr>;
          bodyMesh = new_Mesh bodyGeom bodyMaterial;
          bodyPos0 = Vec2 0 0;
          bodyPos =
            (case robotInitialPosition spec of
               Some p \<Rightarrow> Vec2 (v2d_x p) (v2d_y p)
             | None \<Rightarrow> bodyPos0);
          bodySpecs =
            \<lparr>type = dynamic,
             bodyPosition = bodyPos,
             angle = 0,
             linearDamping = Some 0.5,
             bullet = Some True,
             angularDamping = Some 0.3\<rparr>;
          fixtureSpecs =
            \<lparr>shape = Some (Box (v3d_x (dimensions spec) / 2) (v3d_z (dimensions spec) / 2)),
             density = Some 1,
             isSensor = False,
             friction = Some 0.3,
             restitution = Some 0.4,
             userData = None\<rparr>
      in case new_SimRobotDrivetrain spec of
           Inl e \<Rightarrow> Inl e
         | Inr drivetrain \<Rightarrow>
             Inr \<lparr>robot_guid = guid,
                  robot_children = foldl (\<lambda>children wheel. addChild wheel children) []
                                     (wheelObjects drivetrain),
                  robot_mesh = translateY (- yOffset drivetrain) bodyMesh,
                  robot_body = None,
                  robot_bodySpecs = bodySpecs,
                  robot_fixtureSpecs = fixtureSpecs,
                  robot_drivetrain = drivetrain\<rparr>)"

definition SimRobot_getBodySpecs :: "'d SimRobot \<Rightarrow> BodyDef" where
  "SimRobot_getBodySpecs r = robot_bodySpecs r"

definition SimRobot_getFixtureDef :: "'d SimRobot \<Rightarrow> FixtureDef" where
  "SimRobot_getFixtureDef r = robot_fixtureSpecs r"

text \<open>
  \<open>update\<close> first runs the drivetrain's own update, then the update of every child, then
  copies the chassis body's centre and angle to the mesh. The first two are not among
  the sources, so they are arguments: each returns the exception it raised, if any, and
  the state it left behind.
\<close>

fun updateChildren ::
  "(number \<Rightarrow> ObjRef \<Rightarrow> Store \<Rightarrow> JsError option \<times> Store) \<Rightarrow> number \<Rightarrow> ObjRef list \<Rightarrow>
   Store \<Rightarrow> JsError option \<times> Store" where
  "updateChildren child_update ms [] st = (None, st)"
| "updateChildren child_update ms (childObj # rest) st =
     (case child_update ms childObj st of
        (Some e, st') \<Rightarrow> (Some e, st')
      | (None, st') \<Rightarrow> updateChildren child_update ms rest st')"

definition SimRobot_update ::
  "('d SimRobotDrivetrain_scheme \<Rightarrow> Store \<Rightarrow>
      JsError option \<times> 'd SimRobotDrivetrain_scheme \<times> Store) \<Rightarrow>
   (number \<Rightarrow> ObjRef \<Rightarrow> Store \<Rightarrow> JsError option \<times> Store) \<Rightarrow>
   number \<Rightarrow> 'd SimRobot \<Rightarrow> Store \<Rightarrow> JsError option \<times> 'd SimRobot \<times> Store" where
  "SimRobot_update drivetrain_update child_update ms r st =
     (case drivetrain_update (robot_drivetrain r) st of
        (Some e, drivetrain, st1) \<Rightarrow> (Some e, r\<lparr>robot_drivetrain := drivetrain\<rparr>, st1)
      | (None, drivetrain, st1) \<Rightarrow>
          (case updateChildren child_update ms (robot_children r) st1 of
             (Some e, st2) \<Rightarrow> (Some e, r\<lparr>robot_drivetrain := drivetrain\<rparr>, st2)
           | (None, st2) \<Rightarrow>
               (case robot_body r of
                  None \<Rightarrow> (Some TypeError, r\<lparr>robot_drivetrain := drivetrain\<rparr>, st2)
                | Some b \<Rightarrow>
                    (let bodyCenter = worldCenter (bodies st2 b)
                     in (None,
                         r\<lparr>robot_drivetrain := drivetrain,
                           robot_mesh :=
                             (robot_mesh r)\<lparr>position :=
                                 (position (robot_mesh r))\<lparr>vec3_x := vec2_x bodyCenter,
                                                            vec3_z := vec2_y bodyCenter\<rparr>,
                               rotation :=
                                 (rotation (robot_mesh r))\<lparr>euler_y :=
                                                             - bodyAngle (bodies st2 b)\<rparr>\<rparr>\<rparr>,
                         st2)))))"

subsection \<open>Joints\<close>

record PrismaticJointDef =
  enableLimit :: bool
  lowerTranslation :: number
  upperTranslation :: number

text \<open>
  \<open>new PrismaticJoint(def, bodyA, bodyB, anchor, axis)\<close>, as the arguments it was built
  from. The constructor's arguments are evaluated from left to right and the fourth
  reads the wheel's body, so a joint that exists has a second body. \<open>bodyA\<close> is the
  value of the robot's body field as it was passed.
\<close>

record PrismaticJoint =
  jointDef :: PrismaticJointDef
  bodyA :: "BodyRef option"
  bodyB :: BodyRef
  anchor :: Vec2
  axis :: Vec2

text \<open>The physics world, as the list of the joints created in it, oldest first.\<close>

record World =
  joints :: "PrismaticJoint list"

definition createJoint :: "PrismaticJoint \<Rightarrow> World \<Rightarrow> World" where
  "createJoint j world = world\<lparr>joints := joints world @ [j]\<rparr>"

text \<open>
  The body of the \<open>forEach\<close> of \<open>configureFixtureLinks\<close>, for one wheel. A wheel
  without a body raises the exception when the anchor is computed; a chassis without a
  body raises it inside the joint's constructor, which calls \<open>bodyA.getLocalPoint\<close>.
  Either way nothing is created.
\<close>

definition linkWheel :: "Store \<Rightarrow> BodyRef option \<Rightarrow> ObjRef \<Rightarrow> World \<Rightarrow> JsError option \<times> World" where
  "linkWheel st chassis wheel world =
     (case body (objects st wheel) of
        None \<Rightarrow> (Some TypeError, world)
      | Some wheelBody \<Rightarrow>
          (case chassis of
             None \<Rightarrow> (Some TypeError, world)
           | Some chassisBody \<Rightarrow>
               (None,
                createJoint
                  \<lparr>jointDef =
                     \<lparr>enableLimit = True, lowerTranslation = 0, upperTranslation = 0\<rparr>,
                   bodyA = Some chassisBody,
                   bodyB = wheelBody,
                   anchor = worldCenter (bodies st wheelBody),
                   axis = Vec2 1 0\<rparr>
                  world)))"

fun linkWheels :: "Store \<Rightarrow> BodyRef option \<Rightarrow> ObjRef list \<Rightarrow> World \<Rightarrow> JsError option \<times> World" where
  "linkWheels st chassis [] world = (None, world)"
| "linkWheels st chassis (wheel # rest) world =
     (case linkWheel st chassis wheel world of
        (Some e, world') \<Rightarrow> (Some e, world')
      | (None, world') \<Rightarrow> linkWheels st chassis rest world')"

definition SimRobot_configureFixtureLinks ::
  "Store \<Rightarrow> 'd SimRobot \<Rightarrow> World \<Rightarrow> JsError option \<times> World" where
  "SimRobot_configureFixtureLinks st r world =
     linkWheels st (robot_body r) (wheelObjects (robot_drivetrain r)) world"

section \<open>An example scene\<close>

text \<open>
  Concrete values on which the theorems below are instantiated: a store in which body
  \<open>b\<close> lies at (b, 1) with angle 2 and wheel \<open>obj\<close> has body \<open>obj + 10\<close>, a robot with
  two wheels whose chassis is body 5, a rectangular zone on body 5, and a zone
  specification without any shape.
\<close>

definition exampleStore :: Store where
  "exampleStore =
     \<lparr>bodies = (\<lambda>b. \<lparr>worldCenter = Vec2 (real b) 1, bodyAngle = 2\<rparr>),
      objects = (\<lambda>obj. \<lparr>body = Some (obj + 10)\<rparr>)\<rparr>"

definition exampleRobot :: "unit SimRobot" where
  "exampleRobot =
     \<lparr>robot_guid = ''robot'',
      robot_children = [0, 1],
      robot_mesh = new_Mesh (BoxGeometry 2 1 3) \<lparr>standardColor = ROBOT_DEFAULT_COLOR\<rparr>,
      robot_body = Some 5,
      robot_bodySpecs =
        \<lparr>type = dynamic, bodyPosition = Vec2 0 0, angle = 0, linearDamping = Some 0.5,
         bullet = Some True, angularDamping = Some 0.3\<rparr>,
      robot_fixtureSpecs =
        \<lparr>shape = Some (Box 1 1.5), density = Some 1, isSensor = False,
         friction = Some 0.3, restitution = Some 0.4, userData = None\<rparr>,
      robot_drivetrain = \<lparr>wheelObjects = [0, 1], yOffset = 0\<rparr>\<rparr>"

definition exampleZone :: Zone where
  "exampleZone =
     \<lparr>zone_guid = ''zone'',
      zone_mesh =
        \<lparr>geometry = PlaneGeometry 4 2,
         material = \<lparr>side = DoubleSide, transparent = True, color = None, matOpacity = None\<rparr>,
         position = \<lparr>vec3_x = 0, vec3_y = 0, vec3_z = 0\<rparr>,
         rotation = \<lparr>euler_x = pi / 2, euler_y = 0, euler_z = 0\<rparr>\<rparr>,
      zone_body = Some 5,
      zone_bodySpecs =
        \<lparr>type = static, bodyPosition = Vec2 0 0, angle = 0, linearDamping = None,
         bullet = None, angularDamping = None\<rparr>,
      zone_fixtureSpecs =
        \<lparr>shape = Some (Box 2 1), density = None, isSensor = True, friction = None,
         restitution = None,
         userData = Some \<lparr>selfGuid = ''zone'', userDataType = ''zone'',
                          zone = \<lparr>zoneUserId = ''goal'', zoneUserColor = None\<rparr>\<rparr>\<rparr>,
      zone_zoneId = ''goal''\<rparr>"

definition exampleSpec :: IZoneSpec where
  "exampleSpec =
     \<lparr>zoneId = ''goal'', baseColor = None, opacity = None, initialPosition = None,
      rectangleZone = None, ellipseZone = None, polygonZone = None\<rparr>"

section \<open>Properties of the Zone constructor\<close>

text \<open>
  The polygon loop pushes the points from index \<open>i\<close> on, in order, on both lists.
\<close>

lemma polygonPoints_eq:
  "polygonPoints pts i sp fp =
     (sp @ map (\<lambda>p. Vector2 (v2d_x p) (v2d_y p)) (drop i pts),
      fp @ map (\<lambda>p. Vec2 (v2d_x p) (v2d_y p)) (drop i pts))"
proof (induction pts i sp fp rule: polygonPoints.induct)
  case (1 pts i sp fp)
  show ?case
  proof (cases "i < length pts")
    case True
    then have d: "drop i pts = pts ! i # drop (Suc i) pts"
      by (simp add: Cons_nth_drop_Suc)
    from True 1 show ?thesis
      by (subst polygonPoints.simps) (simp add: d)
  next
    case False
    then show ?thesis
      by (subst polygonPoints.simps) simp
  qed
qed

text \<open>
  Without a shape variant the constructor writes the warning and then reads
  \<open>position\<close> of a mesh that was never assigned.
\<close>

lemma Zone_constructor_none:
  "rectangleZone spec = None \<Longrightarrow> ellipseZone spec = None \<Longrightarrow> polygonZone spec = None \<Longrightarrow>
   Zone_constructor g spec = ([''Some type of zone must be specified''], Inl TypeError)"
  by (simp add: Zone_constructor_def Let_def)

text \<open>
  C1. A Zone specification without \<open>rectangleZone\<close>, \<open>ellipseZone\<close> and
  \<open>polygonZone\<close>: the constructor logs the warning, and the construction then ends
  with a TypeError instead of returning a Zone whose mesh is unset.
\<close>

theorem Zone_no_shape_raises:
  "Zone_constructor ''guid''
     \<lparr>zoneId = ''zone'', baseColor = None, opacity = None, initialPosition = None,
      rectangleZone = None, ellipseZone = None, polygonZone = None\<rparr>
   = ([''Some type of zone must be specified''], Inl TypeError)"
  by (simp add: Zone_constructor_def Let_def)

text \<open>
  C2. A valid specification with exactly one shape variant (a polygon, if that is the
  variant, has at least one point) yields a Zone whose fixture is a sensor and whose
  body type is static, whichever variant it is.
\<close>

theorem Zone_sensor_static:
  "shapeVariantCount spec = 1 \<Longrightarrow>
   (case polygonZone spec of Some poly \<Rightarrow> points poly \<noteq> [] | None \<Rightarrow> True) \<Longrightarrow>
   \<exists>z. snd (Zone_constructor g spec) = Inr z \<and>
       isSensor (Zone_getFixtureDef z) = True \<and>
       type (Zone_getBodySpecs z) = static"
  by (auto simp: shapeVariantCount_def Zone_constructor_def Let_def Zone_getFixtureDef_def
      Zone_getBodySpecs_def polygonPoints_eq new_Shape_def
      split: option.splits if_splits)

theorem Zone_sensor_static_witness:
  "shapeVariantCount
     (exampleSpec\<lparr>polygonZone :=
        Some \<lparr>points = [Vector2d 0 0, Vector2d 3 0, Vector2d 0 4]\<rparr>\<rparr>) = 1 \<and>
   (case polygonZone
           (exampleSpec\<lparr>polygonZone :=
              Some \<lparr>points = [Vector2d 0 0, Vector2d 3 0, Vector2d 0 4]\<rparr>\<rparr>) of
      Some poly \<Rightarrow> points poly \<noteq> []
    | None \<Rightarrow> True) \<and>
   (\<exists>z. snd (Zone_constructor ''guid''
             (exampleSpec\<lparr>polygonZone :=
                Some \<lparr>points = [Vector2d 0 0, Vector2d 3 0, Vector2d 0 4]\<rparr>\<rparr>)) = Inr z \<and>
        isSensor (Zone_getFixtureDef z) = True \<and>
        type (Zone_getBodySpecs z) = static)"
proof -
  let ?spec = "exampleSpec\<lparr>polygonZone :=
        Some \<lparr>points = [Vector2d 0 0, Vector2d 3 0, Vector2d 0 4]\<rparr>\<rparr>"
  have one: "shapeVariantCount ?spec = 1"
    by (simp add: shapeVariantCount_def exampleSpec_def)
  have valid: "case polygonZone ?spec of Some poly \<Rightarrow> points poly \<noteq> [] | None \<Rightarrow> True"
    by simp
  from one valid Zone_sensor_static [OF one valid, of "''guid''"] show ?thesis
    by (intro conjI)
qed

text \<open>
  In the ellipse branch the outline is drawn around the initial position in the mesh's
  own coordinates, and the mesh is then moved to the initial position as well: the
  outline's centre in the world is twice the initial position. The rectangle is drawn
  around the mesh's origin, and its centre is the body's position.
\<close>

lemma Zone_ellipse_center_general:
  "rectangleZone spec = None \<Longrightarrow> ellipseZone spec = Some ell \<Longrightarrow>
   initialPosition spec = Some p \<Longrightarrow>
   \<exists>z. Zone_constructor g spec = ([], Inr z) \<and>
       shape (Zone_getFixtureDef z) = Some (Box (xRadius ell) (zRadius ell)) \<and>
       physicsToWorld (bodyPosition (Zone_getBodySpecs z))
         = \<lparr>vec3_x = v2d_x p, vec3_y = 0, vec3_z = v2d_y p\<rparr> \<and>
       visualCenter (zone_mesh z)
         = Some \<lparr>vec3_x = 2 * v2d_x p, vec3_y = 0, vec3_z = 2 * v2d_y p\<rparr>"
  by (simp add: Zone_constructor_def Let_def Zone_getFixtureDef_def Zone_getBodySpecs_def
      physicsToWorld_def visualCenter_def localToWorld_def new_Mesh_def)

lemma Zone_rectangle_center:
  "rectangleZone spec = Some rect \<Longrightarrow>
   \<exists>z. Zone_constructor g spec = ([], Inr z) \<and>
       visualCenter (zone_mesh z)
         = Some (physicsToWorld (bodyPosition (Zone_getBodySpecs z)))"
  by (simp add: Zone_constructor_def Let_def Zone_getFixtureDef_def Zone_getBodySpecs_def
      physicsToWorld_def visualCenter_def localToWorld_def new_Mesh_def split: option.splits)

text \<open>
  C3. An ellipse Zone with radii (1, 1) at the initial position (1, 2): the fixture is
  the box with half-extents (1, 1) and the body lies at (1, 2), which is the world point
  (1, 0, 2), while the centre of the visual ellipse lies at the world point (2, 0, 4).
\<close>

theorem Zone_ellipse_center_doubled:
  "map_sum id
     (\<lambda>z. (shape (Zone_getFixtureDef z),
           physicsToWorld (bodyPosition (Zone_getBodySpecs z)),
           visualCenter (zone_mesh z)))
     (snd (Zone_constructor ''guid''
        \<lparr>zoneId = ''zone'', baseColor = None, opacity = None,
         initialPosition = Some (Vector2d 1 2),
         rectangleZone = None,
         ellipseZone = Some \<lparr>xRadius = 1, zRadius = 1\<rparr>,
         polygonZone = None\<rparr>))
   = Inr (Some (Box 1 1),
          \<lparr>vec3_x = 1, vec3_y = 0, vec3_z = 2\<rparr>,
          Some \<lparr>vec3_x = 2, vec3_y = 0, vec3_z = 4\<rparr>)"
  by (simp add: Zone_constructor_def Let_def Zone_getFixtureDef_def Zone_getBodySpecs_def
      physicsToWorld_def visualCenter_def localToWorld_def new_Mesh_def)

text \<open>
  C7. A specification with \<open>rectangleZone {xLength: L, zLength: W}\<close> yields, without
  any console output, a Zone whose fixture shape is the box with half-extents
  (L / 2, W / 2), whose mesh is a plane of dimensions L by W, and whose mesh is rotated
  by \<open>pi / 2\<close> (90 degrees) about the x axis and not about the other two.
\<close>

theorem Zone_rectangle_shape:
  "rectangleZone spec = Some rect \<Longrightarrow>
   \<exists>z. Zone_constructor g spec = ([], Inr z) \<and>
       shape (Zone_getFixtureDef z) = Some (Box (xLength rect / 2) (zLength rect / 2)) \<and>
       geometry (zone_mesh z) = PlaneGeometry (xLength rect) (zLength rect) \<and>
       rotation (zone_mesh z) = \<lparr>euler_x = pi / 2, euler_y = 0, euler_z = 0\<rparr>"
  by (simp add: Zone_constructor_def Let_def Zone_getFixtureDef_def new_Mesh_def)

theorem Zone_rectangle_shape_witness:
  "rectangleZone (exampleSpec\<lparr>rectangleZone := Some \<lparr>xLength = 4, zLength = 2\<rparr>\<rparr>)
     = Some \<lparr>xLength = 4, zLength = 2\<rparr> \<and>
   (\<exists>z. Zone_constructor ''guid''
           (exampleSpec\<lparr>rectangleZone := Some \<lparr>xLength = 4, zLength = 2\<rparr>\<rparr>) = ([], Inr z) \<and>
        shape (Zone_getFixtureDef z) = Some (Box 2 1) \<and>
        geometry (zone_mesh z) = PlaneGeometry 4 2 \<and>
        rotation (zone_mesh z) = \<lparr>euler_x = pi / 2, euler_y = 0, euler_z = 0\<rparr>)"
  using Zone_rectangle_shape [of
      "exampleSpec\<lparr>rectangleZone := Some \<lparr>xLength = 4, zLength = 2\<rparr>\<rparr>"
      "\<lparr>xLength = 4, zLength = 2\<rparr>" "''guid''"]
  by simp

text \<open>
  A polygon without points: the loop pushes nothing, and building the visual shape
  raises before the fixture polygon and the mesh are built. Nothing is logged.
\<close>

lemma Zone_constructor_empty_polygon:
  "rectangleZone spec = None \<Longrightarrow> ellipseZone spec = None \<Longrightarrow>
   polygonZone spec = Some poly \<Longrightarrow> points poly = [] \<Longrightarrow>
   Zone_constructor g spec = ([], Inl TypeError)"
  by (simp add: Zone_constructor_def Let_def polygonPoints_eq new_Shape_def)

text \<open>
  C8. A specification whose only shape variant is \<open>polygonZone\<close>, with at least one
  point, yields a Zone whose visual shape and whose fixture polygon are built from
  lists of the same length as the specification's point list, the i-th visual point
  and the i-th fixture vertex both having the coordinates of the i-th point of the
  specification.
\<close>

theorem Zone_polygon_points:
  assumes "rectangleZone spec = None" and "ellipseZone spec = None"
    and "polygonZone spec = Some poly" and "points poly \<noteq> []"
  shows "\<exists>z shapePoints fixturePoints.
           Zone_constructor g spec = ([], Inr z) \<and>
           geometry (zone_mesh z) = ShapeBufferGeometry (Shape_points shapePoints) \<and>
           shape (Zone_getFixtureDef z) = Some (Polygon fixturePoints) \<and>
           length shapePoints = length (points poly) \<and>
           length fixturePoints = length (points poly) \<and>
           (\<forall>i < length (points poly).
              tv2_x (shapePoints ! i) = v2d_x (points poly ! i) \<and>
              tv2_y (shapePoints ! i) = v2d_y (points poly ! i) \<and>
              vec2_x (fixturePoints ! i) = tv2_x (shapePoints ! i) \<and>
              vec2_y (fixturePoints ! i) = tv2_y (shapePoints ! i))"
  using assms
  by (simp add: Zone_constructor_def Let_def Zone_getFixtureDef_def new_Mesh_def
      polygonPoints_eq new_Shape_def)

theorem Zone_polygon_points_witness:
  "rectangleZone (exampleSpec\<lparr>polygonZone :=
       Some \<lparr>points = [Vector2d 0 0, Vector2d 3 0, Vector2d 0 4]\<rparr>\<rparr>) = None \<and>
   ellipseZone (exampleSpec\<lparr>polygonZone :=
       Some \<lparr>points = [Vector2d 0 0, Vector2d 3 0, Vector2d 0 4]\<rparr>\<rparr>) = None \<and>
   points \<lparr>points = [Vector2d 0 0, Vector2d 3 0, Vector2d 0 4]\<rparr> \<noteq> [] \<and>
   (\<exists>z. Zone_constructor ''guid'' (exampleSpec\<lparr>polygonZone :=
            Some \<lparr>points = [Vector2d 0 0, Vector2d 3 0, Vector2d 0 4]\<rparr>\<rparr>) = ([], Inr z) \<and>
        geometry (zone_mesh z)
          = ShapeBufferGeometry (Shape_points [Vector2 0 0, Vector2 3 0, Vector2 0 4]) \<and>
        shape (Zone_getFixtureDef z) = Some (Polygon [Vec2 0 0, Vec2 3 0, Vec2 0 4]))"
proof -
  let ?spec = "exampleSpec\<lparr>polygonZone :=
       Some \<lparr>points = [Vector2d 0 0, Vector2d 3 0, Vector2d 0 4]\<rparr>\<rparr>"
  have r: "rectangleZone ?spec = None" and e: "ellipseZone ?spec = None"
    and p: "polygonZone ?spec = Some \<lparr>points = [Vector2d 0 0, Vector2d 3 0, Vector2d 0 4]\<rparr>"
    by (simp_all add: exampleSpec_def)
  have n: "points \<lparr>points = [Vector2d 0 0, Vector2d 3 0, Vector2d 0 4]\<rparr> \<noteq> []"
    by simp
  from Zone_polygon_points [OF r e p n, of "''guid''"]
  obtain z sp fp where run: "Zone_constructor ''guid'' ?spec = ([], Inr z)"
    and geom: "geometry (zone_mesh z) = ShapeBufferGeometry (Shape_points sp)"
    and fxt: "shape (Zone_getFixtureDef z) = Some (Polygon fp)"
    and lsp: "length sp = 3" and lfp: "length fp = 3"
    and each: "\<And>i. i < 3 \<Longrightarrow>
              tv2_x (sp ! i) = v2d_x ([Vector2d 0 0, Vector2d 3 0, Vector2d 0 4] ! i) \<and>
              tv2_y (sp ! i) = v2d_y ([Vector2d 0 0, Vector2d 3 0, Vector2d 0 4] ! i) \<and>
              vec2_x (fp ! i) = tv2_x (sp ! i) \<and>
              vec2_y (fp ! i) = tv2_y (sp ! i)"
    by auto
  from lsp obtain s0 s1 s2 where sp: "sp = [s0, s1, s2]"
    by (cases sp; cases "tl sp"; cases "tl (tl sp)") auto
  from lfp obtain f0 f1 f2 where fp: "fp = [f0, f1, f2]"
    by (cases fp; cases "tl fp"; cases "tl (tl fp)") auto
  from each [of 0] each [of 1] each [of 2]
  have "sp = [Vector2 0 0, Vector2 3 0, Vector2 0 4]" and "fp = [Vec2 0 0, Vec2 3 0, Vec2 0 4]"
    unfolding sp fp by (auto intro: Vector2.expand Vec2.expand)
  with run geom fxt r e n show ?thesis
    by simp
qed

text \<open>
  C10. A specification with more than one shape variant is built without console
  output and without an exception. The fixture and the mesh are those of the first
  variant present in the order rectangle, ellipse, polygon: the box (xLength / 2,
  zLength / 2) and the plane xLength by zLength when there is a rectangle, else the box
  (xRadius, zRadius) and the ellipse of these radii. The variants after the first
  leave no trace: the result is the one of the specification without them.
\<close>

theorem Zone_shape_precedence:
  "1 < shapeVariantCount spec \<Longrightarrow>
   \<exists>z. Zone_constructor g spec = ([], Inr z) \<and>
       (case rectangleZone spec of
          Some rect \<Rightarrow>
            shape (Zone_getFixtureDef z)
              = Some (Box (xLength rect / 2) (zLength rect / 2)) \<and>
            geometry (zone_mesh z) = PlaneGeometry (xLength rect) (zLength rect) \<and>
            Zone_constructor g (spec\<lparr>ellipseZone := None, polygonZone := None\<rparr>)
              = ([], Inr z)
        | None \<Rightarrow>
            (case ellipseZone spec of
               Some ell \<Rightarrow>
                 shape (Zone_getFixtureDef z) = Some (Box (xRadius ell) (zRadius ell)) \<and>
                 geometry (zone_mesh z)
                   = ShapeBufferGeometry
                       (Shape_ellipse
                          (case initialPosition spec of Some p \<Rightarrow> v2d_x p | None \<Rightarrow> 0)
                          (case initialPosition spec of Some p \<Rightarrow> v2d_y p | None \<Rightarrow> 0)
                          (xRadius ell) (zRadius ell) 0 (2 * pi) False 0) \<and>
                 Zone_constructor g (spec\<lparr>polygonZone := None\<rparr>) = ([], Inr z)
             | None \<Rightarrow> False))"
  by (auto simp: shapeVariantCount_def Zone_constructor_def Let_def Zone_getFixtureDef_def
      new_Mesh_def split: option.splits if_splits)

theorem Zone_shape_precedence_witness:
  "1 < shapeVariantCount
         (exampleSpec\<lparr>rectangleZone := Some \<lparr>xLength = 4, zLength = 2\<rparr>,
                      ellipseZone := Some \<lparr>xRadius = 1, zRadius = 1\<rparr>,
                      polygonZone := Some \<lparr>points = []\<rparr>\<rparr>) \<and>
   (\<exists>z. Zone_constructor ''guid''
           (exampleSpec\<lparr>rectangleZone := Some \<lparr>xLength = 4, zLength = 2\<rparr>,
                        ellipseZone := Some \<lparr>xRadius = 1, zRadius = 1\<rparr>,
                        polygonZone := Some \<lparr>points = []\<rparr>\<rparr>) = ([], Inr z) \<and>
        shape (Zone_getFixtureDef z) = Some (Box 2 1) \<and>
        geometry (zone_mesh z) = PlaneGeometry 4 2 \<and>
        Zone_constructor ''guid''
          (exampleSpec\<lparr>rectangleZone := Some \<lparr>xLength = 4, zLength = 2\<rparr>\<rparr>) = ([], Inr z))"
proof -
  let ?spec = "exampleSpec\<lparr>rectangleZone := Some \<lparr>xLength = 4, zLength = 2\<rparr>,
                   ellipseZone := Some \<lparr>xRadius = 1, zRadius = 1\<rparr>,
                   polygonZone := Some \<lparr>points = []\<rparr>\<rparr>"
  have many: "1 < shapeVariantCount ?spec"
    by (simp add: shapeVariantCount_def)
  have reduced: "?spec\<lparr>ellipseZone := None, polygonZone := None\<rparr>
                   = exampleSpec\<lparr>rectangleZone := Some \<lparr>xLength = 4, zLength = 2\<rparr>\<rparr>"
    by (simp add: exampleSpec_def)
  from Zone_shape_precedence [OF many, of "''guid''"]
  obtain z where "Zone_constructor ''guid'' ?spec = ([], Inr z)"
    and "shape (Zone_getFixtureDef z) = Some (Box 2 1)"
    and "geometry (zone_mesh z) = PlaneGeometry 4 2"
    and "Zone_constructor ''guid'' (?spec\<lparr>ellipseZone := None, polygonZone := None\<rparr>)
           = ([], Inr z)"
    by auto
  with many show ?thesis
    unfolding reduced by blast
qed

section \<open>Properties of the Zone methods\<close>

text \<open>One call of a mutator changes the colour or the opacity of the material only.\<close>

lemma Zone_mutate_frame:
  "zone_bodySpecs (Zone_mutate m z) = zone_bodySpecs z \<and>
   zone_fixtureSpecs (Zone_mutate m z) = zone_fixtureSpecs z \<and>
   zone_zoneId (Zone_mutate m z) = zone_zoneId z \<and>
   zone_guid (Zone_mutate m z) = zone_guid z \<and>
   zone_body (Zone_mutate m z) = zone_body z \<and>
   geometry (zone_mesh (Zone_mutate m z)) = geometry (zone_mesh z) \<and>
   position (zone_mesh (Zone_mutate m z)) = position (zone_mesh z) \<and>
   rotation (zone_mesh (Zone_mutate m z)) = rotation (zone_mesh z)"
  by (cases m) (simp_all add: Zone_setColor_def Zone_setOpacity_def)

text \<open>
  C9. After any sequence of \<open>setColor\<close> and \<open>setOpacity\<close> calls, \<open>getBodySpecs\<close>,
  \<open>getFixtureDef\<close> (with its user data) and \<open>getZoneId\<close> return what they returned
  before; the identifier, the body reference and the mesh's geometry, position and
  rotation are unchanged as well.
\<close>

theorem Zone_mutators_frame:
  "Zone_getBodySpecs (Zone_mutations muts z) = Zone_getBodySpecs z \<and>
   Zone_getFixtureDef (Zone_mutations muts z) = Zone_getFixtureDef z \<and>
   Zone_getZoneId (Zone_mutations muts z) = Zone_getZoneId z \<and>
   zone_guid (Zone_mutations muts z) = zone_guid z \<and>
   zone_body (Zone_mutations muts z) = zone_body z \<and>
   geometry (zone_mesh (Zone_mutations muts z)) = geometry (zone_mesh z) \<and>
   position (zone_mesh (Zone_mutations muts z)) = position (zone_mesh z) \<and>
   rotation (zone_mesh (Zone_mutations muts z)) = rotation (zone_mesh z)"
proof (induction muts arbitrary: z)
  case Nil
  show ?case by simp
next
  case (Cons m muts)
  from Cons.IH [of "Zone_mutate m z"] Zone_mutate_frame [of m z]
  show ?case
    by (simp add: Zone_getBodySpecs_def Zone_getFixtureDef_def Zone_getZoneId_def)
qed

theorem Zone_mutators_frame_witness:
  "Zone_getBodySpecs (Zone_mutations [SetColor 255, SetOpacity 0.5] exampleZone)
     = Zone_getBodySpecs exampleZone \<and>
   Zone_getFixtureDef (Zone_mutations [SetColor 255, SetOpacity 0.5] exampleZone)
     = Zone_getFixtureDef exampleZone \<and>
   Zone_getZoneId (Zone_mutations [SetColor 255, SetOpacity 0.5] exampleZone) = ''goal'' \<and>
   material (zone_mesh (Zone_mutations [SetColor 255, SetOpacity 0.5] exampleZone))
     = \<lparr>side = DoubleSide, transparent = True, color = Some 255, matOpacity = Some 0.5\<rparr>"
  using Zone_mutators_frame [of "[SetColor 255, SetOpacity 0.5]" exampleZone]
  by (simp add: exampleZone_def Zone_setColor_def Zone_setOpacity_def Zone_getZoneId_def)

section \<open>Properties of the SimRobot\<close>

text \<open>
  C4. Whenever the drivetrain can be built, the robot's body specification is dynamic
  with linear damping 0.5, angular damping 0.3, bullet mode, angle 0 and the initial
  position of the specification, or (0, 0) without one; the chassis fixture is the box
  with half-extents (dimensions.x / 2, dimensions.z / 2), density 1, friction 0.3 and
  restitution 0.4.
\<close>

theorem SimRobot_body_and_fixture:
  "new_SimRobotDrivetrain spec = Inr drivetrain \<Longrightarrow>
   \<exists>r. SimRobot_constructor new_SimRobotDrivetrain g spec = Inr r \<and>
       type (SimRobot_getBodySpecs r) = dynamic \<and>
       linearDamping (SimRobot_getBodySpecs r) = Some 0.5 \<and>
       angularDamping (SimRobot_getBodySpecs r) = Some 0.3 \<and>
       bullet (SimRobot_getBodySpecs r) = Some True \<and>
       angle (SimRobot_getBodySpecs r) = 0 \<and>
       bodyPosition (SimRobot_getBodySpecs r) =
         (case robotInitialPosition spec of
            Some p \<Rightarrow> Vec2 (v2d_x p) (v2d_y p)
          | None \<Rightarrow> Vec2 0 0) \<and>
       shape (SimRobot_getFixtureDef r) =
         Some (Box (v3d_x (dimensions spec) / 2) (v3d_z (dimensions spec) / 2)) \<and>
       density (SimRobot_getFixtureDef r) = Some 1 \<and>
       friction (SimRobot_getFixtureDef r) = Some 0.3 \<and>
       restitution (SimRobot_getFixtureDef r) = Some 0.4"
  by (simp add: SimRobot_constructor_def Let_def SimRobot_getBodySpecs_def
      SimRobot_getFixtureDef_def)

theorem SimRobot_body_and_fixture_witness:
  "\<exists>r. SimRobot_constructor
          (\<lambda>s. Inr \<lparr>wheelObjects = [0, 1], yOffset = 0.25\<rparr>) ''robot''
          \<lparr>dimensions = Vector3d 2 1 3, robotBaseColor = None,
           robotInitialPosition = None\<rparr> = Inr r \<and>
       type (SimRobot_getBodySpecs r) = dynamic \<and>
       linearDamping (SimRobot_getBodySpecs r) = Some 0.5 \<and>
       angularDamping (SimRobot_getBodySpecs r) = Some 0.3 \<and>
       bullet (SimRobot_getBodySpecs r) = Some True \<and>
       angle (SimRobot_getBodySpecs r) = 0 \<and>
       bodyPosition (SimRobot_getBodySpecs r) = Vec2 0 0 \<and>
       shape (SimRobot_getFixtureDef r) = Some (Box 1 1.5) \<and>
       density (SimRobot_getFixtureDef r) = Some 1 \<and>
       friction (SimRobot_getFixtureDef r) = Some 0.3 \<and>
       restitution (SimRobot_getFixtureDef r) = Some 0.4"
  using SimRobot_body_and_fixture [of
     "\<lambda>s. Inr \<lparr>wheelObjects = [0, 1], yOffset = 0.25\<rparr>"
     "\<lparr>dimensions = Vector3d 2 1 3, robotBaseColor = None, robotInitialPosition = None\<rparr>"
     "\<lparr>wheelObjects = [0, 1], yOffset = 0.25\<rparr>" "''robot''"]
  by simp

text \<open>
  When the chassis and every wheel have a body, the loop creates one joint per wheel,
  in the order of the wheels, and raises nothing. Without a chassis body the first
  wheel already raises.
\<close>

lemma linkWheels_all:
  "chassis \<noteq> None \<Longrightarrow>
   \<forall>wheel \<in> set wheels. body (objects st wheel) \<noteq> None \<Longrightarrow>
   linkWheels st chassis wheels world =
     (None,
      world\<lparr>joints := joints world @
         map (\<lambda>wheel.
                \<lparr>jointDef = \<lparr>enableLimit = True, lowerTranslation = 0, upperTranslation = 0\<rparr>,
                 bodyA = chassis,
                 bodyB = the (body (objects st wheel)),
                 anchor = worldCenter (bodies st (the (body (objects st wheel)))),
                 axis = Vec2 1 0\<rparr>) wheels\<rparr>)"
proof (induction wheels arbitrary: world)
  case Nil
  then show ?case by simp
next
  case (Cons wheel rest)
  from Cons.prems obtain wb where wb: "body (objects st wheel) = Some wb"
    by auto
  from Cons.prems obtain cb where cb: "chassis = Some cb"
    by auto
  from Cons.prems have rest: "\<forall>w \<in> set rest. body (objects st w) \<noteq> None"
    by simp
  from Cons.prems have some: "chassis \<noteq> None"
    by simp
  have step: "linkWheel st chassis wheel world =
                (None,
                 world\<lparr>joints := joints world @
                   [\<lparr>jointDef =
                       \<lparr>enableLimit = True, lowerTranslation = 0, upperTranslation = 0\<rparr>,
                     bodyA = chassis, bodyB = wb,
                     anchor = worldCenter (bodies st wb), axis = Vec2 1 0\<rparr>]\<rparr>)"
    by (simp add: wb cb linkWheel_def createJoint_def)
  show ?case
    by (simp add: step wb Cons.IH [OF some rest])
qed

lemma linkWheels_no_chassis:
  "linkWheels st None (wheel # rest) world = (Some TypeError, world)"
  by (simp add: linkWheel_def split: option.splits)

text \<open>
  C5. When the chassis and every wheel have a body, \<open>configureFixtureLinks\<close> returns
  normally and adds to the world exactly one joint per wheel object; the i-th joint
  links the chassis body to the i-th wheel's body, has its limit enabled with lower and
  upper translation 0, is anchored at that wheel body's world centre and has the axis
  (1, 0).
\<close>

theorem configureFixtureLinks_joints:
  assumes chassis: "robot_body r = Some chassis"
    and wheels: "\<forall>wheel \<in> set (wheelObjects (robot_drivetrain r)). body (objects st wheel) \<noteq> None"
  shows "\<exists>created.
           SimRobot_configureFixtureLinks st r world
             = (None, world\<lparr>joints := joints world @ created\<rparr>) \<and>
           length created = length (wheelObjects (robot_drivetrain r)) \<and>
           (\<forall>i < length created.
              enableLimit (jointDef (created ! i)) = True \<and>
              lowerTranslation (jointDef (created ! i)) = 0 \<and>
              upperTranslation (jointDef (created ! i)) = 0 \<and>
              bodyA (created ! i) = Some chassis \<and>
              body (objects st (wheelObjects (robot_drivetrain r) ! i))
                = Some (bodyB (created ! i)) \<and>
              anchor (created ! i) = worldCenter (bodies st (bodyB (created ! i))) \<and>
              axis (created ! i) = Vec2 1 0)"
proof -
  let ?ws = "wheelObjects (robot_drivetrain r)"
  let ?mk = "\<lambda>wheel.
                \<lparr>jointDef = \<lparr>enableLimit = True, lowerTranslation = 0, upperTranslation = 0\<rparr>,
                 bodyA = robot_body r,
                 bodyB = the (body (objects st wheel)),
                 anchor = worldCenter (bodies st (the (body (objects st wheel)))),
                 axis = Vec2 1 0\<rparr>"
  have run: "SimRobot_configureFixtureLinks st r world
               = (None, world\<lparr>joints := joints world @ map ?mk ?ws\<rparr>)"
    unfolding SimRobot_configureFixtureLinks_def
    by (rule linkWheels_all [OF _ wheels]) (simp add: chassis)
  have each: "\<exists>wb. body (objects st (?ws ! i)) = Some wb" if "i < length ?ws" for i
    using wheels that by (simp add: nth_mem)
  have props:
    "enableLimit (jointDef (map ?mk ?ws ! i)) = True \<and>
     lowerTranslation (jointDef (map ?mk ?ws ! i)) = 0 \<and>
     upperTranslation (jointDef (map ?mk ?ws ! i)) = 0 \<and>
     bodyA (map ?mk ?ws ! i) = Some chassis \<and>
     body (objects st (?ws ! i)) = Some (bodyB (map ?mk ?ws ! i)) \<and>
     anchor (map ?mk ?ws ! i) = worldCenter (bodies st (bodyB (map ?mk ?ws ! i))) \<and>
     axis (map ?mk ?ws ! i) = Vec2 1 0"
    if "i < length (map ?mk ?ws)" for i
  proof -
    from that have i: "i < length ?ws" by simp
    from each [OF i] obtain wb where "body (objects st (?ws ! i)) = Some wb" ..
    with i show ?thesis by (simp add: chassis)
  qed
  from run props show ?thesis
    by (intro exI [of _ "map ?mk ?ws"]) simp
qed

theorem configureFixtureLinks_joints_witness:
  "robot_body exampleRobot = Some 5 \<and>
   body (objects exampleStore 0) = Some 10 \<and>
   body (objects exampleStore 1) = Some 11 \<and>
   SimRobot_configureFixtureLinks exampleStore exampleRobot \<lparr>joints = []\<rparr>
     = (None,
        \<lparr>joints =
           [\<lparr>jointDef = \<lparr>enableLimit = True, lowerTranslation = 0, upperTranslation = 0\<rparr>,
             bodyA = Some 5, bodyB = 10, anchor = Vec2 10 1, axis = Vec2 1 0\<rparr>,
            \<lparr>jointDef = \<lparr>enableLimit = True, lowerTranslation = 0, upperTranslation = 0\<rparr>,
             bodyA = Some 5, bodyB = 11, anchor = Vec2 11 1, axis = Vec2 1 0\<rparr>]\<rparr>)"
proof -
  have chassis: "robot_body exampleRobot = Some 5"
    by (simp add: exampleRobot_def)
  have wheels: "\<forall>wheel \<in> set (wheelObjects (robot_drivetrain exampleRobot)).
                  body (objects exampleStore wheel) \<noteq> None"
    by (simp add: exampleRobot_def exampleStore_def)
  from configureFixtureLinks_joints [OF chassis wheels, of "\<lparr>joints = []\<rparr>"]
  obtain created where run:
      "SimRobot_configureFixtureLinks exampleStore exampleRobot \<lparr>joints = []\<rparr>
         = (None, \<lparr>joints = created\<rparr>)"
    and len: "length created = 2"
    and each: "\<And>i. i < length created \<Longrightarrow>
       enableLimit (jointDef (created ! i)) = True \<and>
       lowerTranslation (jointDef (created ! i)) = 0 \<and>
       upperTranslation (jointDef (created ! i)) = 0 \<and>
       bodyA (created ! i) = Some 5 \<and>
       body (objects exampleStore (wheelObjects (robot_drivetrain exampleRobot) ! i))
         = Some (bodyB (created ! i)) \<and>
       anchor (created ! i) = worldCenter (bodies exampleStore (bodyB (created ! i))) \<and>
       axis (created ! i) = Vec2 1 0"
    by (auto simp: exampleRobot_def)
  from len obtain j0 j1 where created: "created = [j0, j1]"
    by (cases created; cases "tl created") auto
  from each [of 0] each [of 1] have "j0 = \<lparr>jointDef = \<lparr>enableLimit = True, lowerTranslation = 0, upperTranslation = 0\<rparr>,
             bodyA = Some 5, bodyB = 10, anchor = Vec2 10 1, axis = Vec2 1 0\<rparr>"
     and "j1 = \<lparr>jointDef = \<lparr>enableLimit = True, lowerTranslation = 0, upperTranslation = 0\<rparr>,
             bodyA = Some 5, bodyB = 11, anchor = Vec2 11 1, axis = Vec2 1 0\<rparr>"
    by (auto simp: created exampleRobot_def exampleStore_def)
  with run created chassis show ?thesis
    by (simp add: exampleStore_def)
qed

section \<open>Properties of update\<close>

text \<open>
  C6. A second \<open>update\<close> of a Zone against the same store returns what the first one
  returned. For a robot, when two successive calls return normally and the chassis
  body is in the same state at the end of both (nothing has moved it in between), the
  mesh after the second call is the mesh after the first.
\<close>

theorem update_idempotent:
  "Zone_update st ms' (snd (Zone_update st ms z)) = Zone_update st ms z \<and>
   (SimRobot_update drivetrain_update child_update ms r st = (None, r1, st1) \<and>
    SimRobot_update drivetrain_update child_update ms' r1 st1 = (None, r2, st2) \<and>
    robot_body r = Some b \<and> bodies st2 b = bodies st1 b
    \<longrightarrow> robot_mesh r2 = robot_mesh r1)"
proof (intro conjI impI)
  show "Zone_update st ms' (snd (Zone_update st ms z)) = Zone_update st ms z"
    by (simp add: Zone_update_def Let_def split: option.splits)
next
  assume h: "SimRobot_update drivetrain_update child_update ms r st = (None, r1, st1) \<and>
    SimRobot_update drivetrain_update child_update ms' r1 st1 = (None, r2, st2) \<and>
    robot_body r = Some b \<and> bodies st2 b = bodies st1 b"
  then show "robot_mesh r2 = robot_mesh r1"
    by (auto simp: SimRobot_update_def Let_def split: prod.splits option.splits)
qed

theorem update_idempotent_witness:
  "Zone_update exampleStore 16 (snd (Zone_update exampleStore 16 exampleZone))
     = Zone_update exampleStore 16 exampleZone \<and>
   SimRobot_update (\<lambda>d st. (None, d, st)) (\<lambda>ms obj st. (None, st)) 16 exampleRobot exampleStore
     = (None,
        exampleRobot\<lparr>robot_mesh :=
          (robot_mesh exampleRobot)\<lparr>position := \<lparr>vec3_x = 5, vec3_y = 0, vec3_z = 1\<rparr>,
                                    rotation := \<lparr>euler_x = 0, euler_y = - 2, euler_z = 0\<rparr>\<rparr>\<rparr>,
        exampleStore) \<and>
   SimRobot_update (\<lambda>d st. (None, d, st)) (\<lambda>ms obj st. (None, st)) 16
       (exampleRobot\<lparr>robot_mesh :=
          (robot_mesh exampleRobot)\<lparr>position := \<lparr>vec3_x = 5, vec3_y = 0, vec3_z = 1\<rparr>,
                                    rotation := \<lparr>euler_x = 0, euler_y = - 2, euler_z = 0\<rparr>\<rparr>\<rparr>)
       exampleStore
     = (None,
        exampleRobot\<lparr>robot_mesh :=
          (robot_mesh exampleRobot)\<lparr>position := \<lparr>vec3_x = 5, vec3_y = 0, vec3_z = 1\<rparr>,
                                    rotation := \<lparr>euler_x = 0, euler_y = - 2, euler_z = 0\<rparr>\<rparr>\<rparr>,
        exampleStore) \<and>
   robot_body exampleRobot = Some 5"
  using update_idempotent [where st = exampleStore and ms = 16 and ms' = 16
      and z = exampleZone and drivetrain_update = "\<lambda>d st. (None, d, st)"
      and child_update = "\<lambda>ms obj st. (None, st)" and r = exampleRobot
      and ?r1.0 = "exampleRobot\<lparr>robot_mesh :=
          (robot_mesh exampleRobot)\<lparr>position := \<lparr>vec3_x = 5, vec3_y = 0, vec3_z = 1\<rparr>,
                                    rotation := \<lparr>euler_x = 0, euler_y = - 2, euler_z = 0\<rparr>\<rparr>\<rparr>"
      and ?st1.0 = exampleStore
      and ?r2.0 = "exampleRobot\<lparr>robot_mesh :=
          (robot_mesh exampleRobot)\<lparr>position := \<lparr>vec3_x = 5, vec3_y = 0, vec3_z = 1\<rparr>,
                                    rotation := \<lparr>euler_x = 0, euler_y = - 2, euler_z = 0\<rparr>\<rparr>\<rparr>"
      and ?st2.0 = exampleStore and b = 5]
  by (simp add: SimRobot_update_def Zone_update_def exampleRobot_def exampleStore_def
      exampleZone_def new_Mesh_def Let_def)

end
